theory Spec2Isabelle
  imports Complex_Main "HOL-Library.Char_ord" "HOL-Library.List_Lexorder" "HOL-Library.Product_Lexorder"
begin

section \<open>Face detection, recognition and enrollment encoding\<close>

text \<open>
  \<^verbatim>\<open>face_recognition_utils.py\<close>. The OpenCV Haar cascade
  (\<^verbatim>\<open>detectMultiScale\<close>) is the one external capability: it is the parameter
  \<open>cascade\<close>, giving for an image the boxes \<open>(x, y, w, h)\<close> it finds. Everything the
  Python does with the boxes is modelled as written.
\<close>

type_synonym box = "int \<times> int \<times> int \<times> int"
type_synonym face_location = "int \<times> int \<times> int \<times> int"
type_synonym encoding = "real list"

text \<open>The three parallel lists of a \<^verbatim>\<open>FaceRecognitionUtils\<close> object: the gallery.\<close>

record face_utils =
  known_face_encodings :: "encoding list"
  known_face_names :: "string list"
  known_face_ids :: "int list"

text \<open>\<^verbatim>\<open>detect_faces\<close>: each box becomes \<open>(top, right, bottom, left)\<close>.\<close>

definition detect_faces :: "('img \<Rightarrow> box list) \<Rightarrow> 'img \<Rightarrow> face_location list" where
  "detect_faces cascade img = map (\<lambda>(x, y, w, h). (y, x + w, y + h, x)) (cascade img)"

text \<open>
  \<^verbatim>\<open>recognize_faces(self, image, tolerance=0.6)\<close>: one name and one id per detected
  face, the name always \<^verbatim>\<open>"Student"\<close> and the id always \<open>1\<close>. The object and the
  tolerance are arguments of the method and are not read by its body.
\<close>

definition recognize_faces ::
  "('img \<Rightarrow> box list) \<Rightarrow> face_utils \<Rightarrow> 'img \<Rightarrow> real
     \<Rightarrow> face_location list \<times> string list \<times> int list" where
  "recognize_faces cascade self img tolerance =
     (let face_locations = detect_faces cascade img;
          face_names = map (\<lambda>_. ''Student'') face_locations;
          face_ids = map (\<lambda>_. 1) face_locations
      in (face_locations, face_names, face_ids))"

text \<open>
  The callers (\<^verbatim>\<open>pages/2_Take_Attendance.py\<close>) treat a returned id as a match when
  it is truthy (\<^verbatim>\<open>if face_id:\<close>) and as unknown otherwise.
\<close>

definition is_unknown :: "int \<Rightarrow> bool" where
  "is_unknown face_id = (face_id = 0)"

definition matched_identities :: "face_location list \<times> string list \<times> int list \<Rightarrow> int set" where
  "matched_identities r = {i \<in> set (snd (snd r)). \<not> is_unknown i}"

text \<open>
  \<^verbatim>\<open>get_face_encoding\<close>: the pair \<open>(encoding, error)\<close>, with \<^verbatim>\<open>None\<close> as
  \<open>None\<close>; \<^verbatim>\<open>np.ones(128, dtype=np.float64)\<close> is the list of 128 ones.
\<close>

definition get_face_encoding ::
  "('img \<Rightarrow> box list) \<Rightarrow> 'img \<Rightarrow> encoding option \<times> string option" where
  "get_face_encoding cascade img =
     (let face_locations = detect_faces cascade img
      in if face_locations = [] then (None, Some ''No face detected in the image'')
         else if length face_locations > 1
         then (None, Some ''Multiple faces detected. Please provide an image with a single face.'')
         else (Some (replicate 128 1), None))"

definition encoding_error :: "encoding option \<times> string option \<Rightarrow> bool" where
  "encoding_error r = (fst r = None \<and> snd r \<noteq> None)"

section \<open>The database\<close>

text \<open>
  \<^verbatim>\<open>database.py\<close>. The SQLite file is a record of its tables, each a list of rows in
  table order. Every method of \<^verbatim>\<open>Database\<close> opens the connection before its
  \<^verbatim>\<open>try\<close> block and runs its statements inside it, so a database that cannot be
  opened raises out of the method, and one whose statements fail takes the method's
  \<^verbatim>\<open>except\<close> branch. Which of the two happens is the field \<open>conn_state\<close>; no
  method changes it.
\<close>

datatype db_status = Online | ConnectFails | QueryFails string

datatype py_exn = OperationalError

text \<open>
  The \<^verbatim>\<open>face_encoding\<close> column holds what \<^verbatim>\<open>json.dumps\<close> wrote, or bytes that
  \<^verbatim>\<open>json.loads\<close> rejects.
\<close>

datatype stored_encoding = Decodable encoding | Undecodable

record student =
  s_id :: int
  s_roll_no :: string
  s_name :: string
  s_branch :: string
  s_semester :: int
  s_section :: string
  s_email :: "string option"
  s_face_encoding :: "stored_encoding option"

record subject =
  sub_id :: int
  sub_code :: string
  sub_name :: string
  sub_branch :: string
  sub_semester :: int

record attendance_row =
  a_id :: int
  a_student_id :: int
  a_subject_id :: int
  a_date :: string
  a_time :: string
  a_status :: string
  a_synced :: bool

text \<open>
  \<open>attendance_seq\<close> is the \<^verbatim>\<open>sqlite_sequence\<close> entry of the attendance table: the
  largest id \<^verbatim>\<open>AUTOINCREMENT\<close> has given out.
\<close>

record database =
  students :: "student list"
  subjects :: "subject list"
  attendance :: "attendance_row list"
  attendance_seq :: int
  conn_state :: db_status

subsection \<open>The gallery query\<close>

record face_row =
  f_id :: int
  f_roll_no :: string
  f_name :: string
  f_face_encoding :: encoding

text \<open>A row whose stored encoding does not decode gets the default vector of 128 ones.\<close>

definition decode_face_encoding :: "stored_encoding \<Rightarrow> encoding" where
  "decode_face_encoding b = (case b of Decodable v \<Rightarrow> v | Undecodable \<Rightarrow> replicate 128 1)"

definition get_all_face_encodings :: "database \<Rightarrow> py_exn + face_row list" where
  "get_all_face_encodings db =
     (case conn_state db of
        ConnectFails \<Rightarrow> Inl OperationalError
      | QueryFails e \<Rightarrow> Inr []
      | Online \<Rightarrow>
          Inr (concat (map (\<lambda>row.
                 case s_face_encoding row of
                   None \<Rightarrow> []
                 | Some b \<Rightarrow> [\<lparr>f_id = s_id row, f_roll_no = s_roll_no row, f_name = s_name row,
                              f_face_encoding = decode_face_encoding b\<rparr>])
               (students db))))"

text \<open>
  \<^verbatim>\<open>load_known_faces\<close>: the query is the first statement; the three lists are then
  emptied and filled with one entry per row, and the number of rows is returned. An
  exception of the query leaves the method before the lists are touched.
\<close>

definition load_known_faces :: "database \<Rightarrow> face_utils \<Rightarrow> (py_exn + nat) \<times> face_utils" where
  "load_known_faces db self =
     (case get_all_face_encodings db of
        Inl e \<Rightarrow> (Inl e, self)
      | Inr rows \<Rightarrow>
          (Inr (length rows),
           self\<lparr>known_face_encodings := map f_face_encoding rows,
                known_face_names := map (\<lambda>r. f_name r @ '' ('' @ f_roll_no r @ '')'') rows,
                known_face_ids := map f_id rows\<rparr>))"

subsection \<open>The attendance ledger\<close>

definition same_key :: "int \<Rightarrow> int \<Rightarrow> string \<Rightarrow> attendance_row \<Rightarrow> bool" where
  "same_key student_id subject_id day a =
     (a_student_id a = student_id \<and> a_subject_id a = subject_id \<and> a_date a = day)"

text \<open>The id \<^verbatim>\<open>AUTOINCREMENT\<close> gives the next row: one more than every id in use or used.\<close>

definition next_attendance_id :: "database \<Rightarrow> int" where
  "next_attendance_id db = fold max (map a_id (attendance db)) (attendance_seq db) + 1"

text \<open>
  \<^verbatim>\<open>mark_attendance(student_id, subject_id, status="present", sync=True)\<close>.
  \<^verbatim>\<open>date.today().isoformat()\<close> and \<^verbatim>\<open>datetime.now().strftime("%H:%M:%S")\<close> are
  the arguments \<open>current_date\<close> and \<open>current_time\<close>. \<^verbatim>\<open>fetchone()\<close> is the first
  row of the key in table order; the \<^verbatim>\<open>UPDATE\<close> is by that row's id.
\<close>

definition mark_attendance ::
  "database \<Rightarrow> string \<Rightarrow> string \<Rightarrow> int \<Rightarrow> int \<Rightarrow> string \<Rightarrow> bool
     \<Rightarrow> (py_exn + bool \<times> string) \<times> database" where
  "mark_attendance db current_date current_time student_id subject_id status sync =
     (case conn_state db of
        ConnectFails \<Rightarrow> (Inl OperationalError, db)
      | QueryFails e \<Rightarrow> (Inr (False, e), db)
      | Online \<Rightarrow>
          (case find (same_key student_id subject_id current_date) (attendance db) of
             Some existing \<Rightarrow>
               (Inr (True, ''Attendance marked successfully''),
                db\<lparr>attendance :=
                     map (\<lambda>a. if a_id a = a_id existing
                               then a\<lparr>a_time := current_time, a_status := status, a_synced := sync\<rparr>
                               else a)
                         (attendance db)\<rparr>)
           | None \<Rightarrow>
               (Inr (True, ''Attendance marked successfully''),
                db\<lparr>attendance := attendance db @
                       [\<lparr>a_id = next_attendance_id db, a_student_id = student_id,
                         a_subject_id = subject_id, a_date = current_date,
                         a_time = current_time, a_status = status, a_synced = sync\<rparr>],
                    attendance_seq := next_attendance_id db\<rparr>)))"

text \<open>The records the ledger holds for a key, and a sequence of calls for one key.\<close>

definition records_for :: "database \<Rightarrow> int \<Rightarrow> int \<Rightarrow> string \<Rightarrow> attendance_row list" where
  "records_for db student_id subject_id day =
     filter (same_key student_id subject_id day) (attendance db)"

record mark_call =
  call_time :: string
  call_status :: string
  call_sync :: bool

fun mark_all :: "database \<Rightarrow> string \<Rightarrow> int \<Rightarrow> int \<Rightarrow> mark_call list \<Rightarrow> database" where
  "mark_all db day student_id subject_id [] = db"
| "mark_all db day student_id subject_id (c # cs) =
     mark_all (snd (mark_attendance db day (call_time c) student_id subject_id
                      (call_status c) (call_sync c)))
       day student_id subject_id cs"

subsection \<open>Pending attendance\<close>

text \<open>A row of the data frame \<^verbatim>\<open>get_unsynced_attendance\<close> returns, with its column names.\<close>

record unsynced_row =
  u_id :: int
  u_date :: string
  u_time :: string
  u_status :: string
  u_student_id :: int
  u_roll_no :: string
  u_student_name :: string
  u_branch :: string
  u_semester :: int
  u_section :: string
  u_subject_id :: int
  u_subject_code :: string
  u_subject_name :: string

definition joined_row :: "attendance_row \<Rightarrow> student \<Rightarrow> subject \<Rightarrow> unsynced_row" where
  "joined_row a s sub =
     \<lparr>u_id = a_id a, u_date = a_date a, u_time = a_time a, u_status = a_status a,
      u_student_id = s_id s, u_roll_no = s_roll_no s, u_student_name = s_name s,
      u_branch = s_branch s, u_semester = s_semester s, u_section = s_section s,
      u_subject_id = sub_id sub, u_subject_code = sub_code sub, u_subject_name = sub_name sub\<rparr>"

text \<open>
  The two inner joins with \<^verbatim>\<open>WHERE a.synced = FALSE\<close>: one row for every unsynced
  attendance row, student of its \<^verbatim>\<open>student_id\<close> and subject of its
  \<^verbatim>\<open>subject_id\<close>.
\<close>

definition unsynced_join :: "database \<Rightarrow> unsynced_row list" where
  "unsynced_join db =
     concat (map (\<lambda>a.
       concat (map (\<lambda>s.
         map (\<lambda>sub. joined_row a s sub)
           (filter (\<lambda>sub. a_subject_id a = sub_id sub) (subjects db)))
         (filter (\<lambda>s. a_student_id a = s_id s) (students db))))
       (filter (\<lambda>a. \<not> a_synced a) (attendance db)))"

text \<open>
  \<^verbatim>\<open>ORDER BY ... DESC\<close>: descending in the key, rows of equal key in the order the
  join produced them.
\<close>

definition order_by_desc :: "('a \<Rightarrow> 'k::linorder) \<Rightarrow> 'a list \<Rightarrow> 'a list" where
  "order_by_desc key xs = rev (sort_key key (rev xs))"

definition get_unsynced_attendance :: "database \<Rightarrow> py_exn + unsynced_row list" where
  "get_unsynced_attendance db =
     (case conn_state db of
        ConnectFails \<Rightarrow> Inl OperationalError
      | QueryFails e \<Rightarrow> Inr []
      | Online \<Rightarrow> Inr (order_by_desc (\<lambda>r. (u_date r, u_time r)) (unsynced_join db)))"

definition synced_where :: "(int \<Rightarrow> bool) \<Rightarrow> database \<Rightarrow> database" where
  "synced_where P db =
     db\<lparr>attendance := map (\<lambda>a. if P (a_id a) then a\<lparr>a_synced := True\<rparr> else a) (attendance db)\<rparr>"

definition mark_attendance_synced :: "int \<Rightarrow> database \<Rightarrow> (py_exn + bool) \<times> database" where
  "mark_attendance_synced attendance_id db =
     (case conn_state db of
        ConnectFails \<Rightarrow> (Inl OperationalError, db)
      | QueryFails e \<Rightarrow> (Inr False, db)
      | Online \<Rightarrow> (Inr True, synced_where (\<lambda>i. i = attendance_id) db))"

section \<open>The Telegram reconciler\<close>

text \<open>
  \<^verbatim>\<open>telegram_utils.py\<close>. The message \<^verbatim>\<open>send_attendance_report\<close> formats is a record
  of what the text holds: date, subject, the three counts (the percentage line is
  computed from them), the present and the absent students as (name, roll number), and
  the time the report was generated.
\<close>

record report =
  r_date :: string
  r_subject_name :: string
  r_subject_code :: string
  r_total :: int
  r_present :: int
  r_absent :: int
  r_present_students :: "(string \<times> string) list"
  r_absent_students :: "(string \<times> string) list"
  r_generated :: string

definition format_report :: "unsynced_row \<Rightarrow> unsynced_row list \<Rightarrow> string \<Rightarrow> report" where
  "format_report first attendance_data now =
     (let total_students = int (length attendance_data);
          present_students =
            int (length (filter (\<lambda>r. u_status r = ''present'') attendance_data));
          absent_students = total_students - present_students
      in \<lparr>r_date = u_date first, r_subject_name = u_subject_name first,
          r_subject_code = u_subject_code first,
          r_total = total_students, r_present = present_students, r_absent = absent_students,
          r_present_students =
            map (\<lambda>r. (u_student_name r, u_roll_no r))
              (filter (\<lambda>r. u_status r = ''present'') attendance_data),
          r_absent_students =
            map (\<lambda>r. (u_student_name r, u_roll_no r))
              (filter (\<lambda>r. u_status r = ''absent'') attendance_data),
          r_generated = now\<rparr>)"

text \<open>
  The transport. \<^verbatim>\<open>send_message_sync\<close> as the repository has it always succeeds; the
  reconciler is modelled over any transport, a function from the message to
  \<open>(success, error)\<close>, so that a failing delivery can be stated.
\<close>

type_synonym transport = "report \<Rightarrow> bool \<times> string"

definition send_message_sync :: transport where
  "send_message_sync message = (True, ''Message sent successfully (demo mode)'')"

text \<open>The loop over the rows of a delivered report; the result of each call is dropped.\<close>

fun mark_rows_synced :: "int list \<Rightarrow> database \<Rightarrow> py_exn option \<times> database" where
  "mark_rows_synced [] db = (None, db)"
| "mark_rows_synced (i # ids) db =
     (case mark_attendance_synced i db of
        (Inl e, db') \<Rightarrow> (Some e, db')
      | (Inr ok, db') \<Rightarrow> mark_rows_synced ids db')"

text \<open>
  \<^verbatim>\<open>send_attendance_report\<close>. The state is the database and the list of messages
  handed to the transport so far; \<open>now\<close> is the clock read for the report.
\<close>

definition send_attendance_report ::
  "transport \<Rightarrow> string \<Rightarrow> database \<Rightarrow> report list \<Rightarrow> unsynced_row list
     \<Rightarrow> (py_exn + bool \<times> string) \<times> database \<times> report list" where
  "send_attendance_report deliver now db sent attendance_data =
     (case attendance_data of
        [] \<Rightarrow> (Inr (False, ''No attendance data to send''), db, sent)
      | first # rest \<Rightarrow>
          (let message = format_report first attendance_data now;
               (success, error) = deliver message
           in if success
              then (case mark_rows_synced (map u_id attendance_data) db of
                      (Some e, db') \<Rightarrow> (Inl e, db', sent @ [message])
                    | (None, db') \<Rightarrow> (Inr (success, error), db', sent @ [message]))
              else (Inr (success, error), db, sent @ [message])))"

text \<open>
  \<^verbatim>\<open>groupby(["date", "subject_id"])\<close>: one group per key, the keys ascending, each
  group the rows of its key in their order.
\<close>

definition group_key :: "unsynced_row \<Rightarrow> string \<times> int" where
  "group_key r = (u_date r, u_subject_id r)"

type_synonym batch = "(string \<times> int) \<times> unsynced_row list"

definition groupby :: "unsynced_row list \<Rightarrow> batch list" where
  "groupby rows =
     map (\<lambda>k. (k, filter (\<lambda>r. group_key r = k) rows)) (sort (remdups (map group_key rows)))"

text \<open>
  The loop of \<^verbatim>\<open>sync_pending_attendance\<close> over the groups, with its three
  accumulators. \<open>clock n\<close> is the time read for the report of the \<open>n\<close>-th group of the
  run.
\<close>

fun sync_groups ::
  "transport \<Rightarrow> (nat \<Rightarrow> string) \<Rightarrow> batch list \<Rightarrow> nat \<times> nat \<times> string list
     \<Rightarrow> database \<Rightarrow> report list
     \<Rightarrow> (py_exn + nat \<times> nat \<times> string list) \<times> database \<times> report list" where
  "sync_groups deliver clock [] acc db sent = (Inr acc, db, sent)"
| "sync_groups deliver clock ((k, grp) # grps)
       (success_count, error_count, error_messages) db sent =
     (case send_attendance_report deliver (clock (success_count + error_count)) db sent grp of
        (Inl e, db', sent') \<Rightarrow> (Inl e, db', sent')
      | (Inr (success, error), db', sent') \<Rightarrow>
          if success
          then sync_groups deliver clock grps
                 (success_count + 1, error_count, error_messages) db' sent'
          else sync_groups deliver clock grps
                 (success_count, error_count + 1, error_messages @ [error]) db' sent')"

text \<open>Python's \<^verbatim>\<open>str\<close> of a count and \<^verbatim>\<open>', '.join\<close>.\<close>

fun str_nat :: "nat \<Rightarrow> string" where
  "str_nat n =
     (if n < 10 then [char_of (48 + n)] else str_nat (n div 10) @ [char_of (48 + n mod 10)])"

fun join :: "string \<Rightarrow> string list \<Rightarrow> string" where
  "join sep [] = []"
| "join sep [x] = x"
| "join sep (x # y # ys) = x @ sep @ join sep (y # ys)"

definition sync_pending_attendance ::
  "transport \<Rightarrow> (nat \<Rightarrow> string) \<Rightarrow> database \<Rightarrow> report list
     \<Rightarrow> (py_exn + bool \<times> string) \<times> database \<times> report list" where
  "sync_pending_attendance deliver clock db sent =
     (case get_unsynced_attendance db of
        Inl e \<Rightarrow> (Inl e, db, sent)
      | Inr unsynced_attendance \<Rightarrow>
          if unsynced_attendance = []
          then (Inr (True, ''No pending attendance to sync''), db, sent)
          else (case sync_groups deliver clock (groupby unsynced_attendance) (0, 0, []) db sent of
                  (Inl e, db', sent') \<Rightarrow> (Inl e, db', sent')
                | (Inr (success_count, error_count, error_messages), db', sent') \<Rightarrow>
                    (if error_count = 0
                     then Inr (True, ''Successfully synced '' @ str_nat success_count
                                       @ '' attendance reports'')
                     else Inr (False, ''Synced '' @ str_nat success_count @ '' reports, ''
                                       @ str_nat error_count @ '' failed: ''
                                       @ join '', '' error_messages),
                     db', sent')))"

text \<open>
  What a run of the reconciler hands to the transport: the batches it forms, each with
  its message and the transport's answer, in the order of the run.
\<close>

definition pending_batches :: "database \<Rightarrow> batch list" where
  "pending_batches db =
     (case get_unsynced_attendance db of Inl e \<Rightarrow> [] | Inr rows \<Rightarrow> groupby rows)"

fun deliveries ::
  "transport \<Rightarrow> (nat \<Rightarrow> string) \<Rightarrow> nat \<Rightarrow> batch list
     \<Rightarrow> (batch \<times> report \<times> bool \<times> string) list" where
  "deliveries deliver clock n [] = []"
| "deliveries deliver clock n (b # bs) =
     (b, format_report (hd (snd b)) (snd b) (clock n),
         deliver (format_report (hd (snd b)) (snd b) (clock n)))
       # deliveries deliver clock (Suc n) bs"

definition run_deliveries ::
  "transport \<Rightarrow> (nat \<Rightarrow> string) \<Rightarrow> database \<Rightarrow> (batch \<times> report \<times> bool \<times> string) list" where
  "run_deliveries deliver clock db = deliveries deliver clock 0 (pending_batches db)"

definition batch_ids :: "batch \<Rightarrow> int set" where
  "batch_ids b = set (map u_id (snd b))"


definition d_batch :: "batch \<times> report \<times> bool \<times> string \<Rightarrow> batch" where
  "d_batch d = fst d"

definition d_report :: "batch \<times> report \<times> bool \<times> string \<Rightarrow> report" where
  "d_report d = fst (snd d)"

definition delivered :: "batch \<times> report \<times> bool \<times> string \<Rightarrow> bool" where
  "delivered d = fst (snd (snd d))"

definition failure_reason :: "batch \<times> report \<times> bool \<times> string \<Rightarrow> string" where
  "failure_reason d = snd (snd (snd d))"

text \<open>The ids of the rows in the batches the transport confirmed.\<close>

definition delivered_ids :: "(batch \<times> report \<times> bool \<times> string) list \<Rightarrow> int list" where
  "delivered_ids ds = concat (map (\<lambda>d. map u_id (snd (d_batch d))) (filter delivered ds))"

section \<open>Attendance statistics\<close>

text \<open>
  \<^verbatim>\<open>get_attendance_stats\<close>. A value bound to a \<^verbatim>\<open>?\<close> placeholder is a string or an
  integer. A filter is used when it is truthy: not \<^verbatim>\<open>None\<close>, not the empty string,
  not \<open>0\<close>.
\<close>

datatype sql_param = PStr string | PInt int

definition str_param :: "string option \<Rightarrow> sql_param list" where
  "str_param v = (case v of None \<Rightarrow> [] | Some s \<Rightarrow> if s = [] then [] else [PStr s])"

definition int_param :: "int option \<Rightarrow> sql_param list" where
  "int_param v = (case v of None \<Rightarrow> [] | Some n \<Rightarrow> if n = 0 then [] else [PInt n])"

text \<open>
  A condition \<^verbatim>\<open>column = ?\<close> is the column, as a function of the row. Executing a
  query binds the parameters to the placeholders by position; SQLite raises when their
  numbers differ, which is the result \<open>None\<close>.
\<close>

definition bind :: "('row \<Rightarrow> sql_param) list \<Rightarrow> sql_param list \<Rightarrow> ('row \<Rightarrow> bool) option" where
  "bind conditions params =
     (if length conditions = length params
      then Some (\<lambda>row. list_all2 (\<lambda>column p. column row = p) conditions params)
      else None)"

record stats =
  st_total :: int
  st_present :: int
  st_absent :: int
  st_by_branch :: "(string \<times> int) list"
  st_by_subject :: "(string \<times> int) list"

text \<open>The dictionary of the \<^verbatim>\<open>except\<close> branch.\<close>

definition zero_stats :: stats where
  "zero_stats = \<lparr>st_total = 0, st_present = 0, st_absent = 0, st_by_branch = [],
                 st_by_subject = []\<rparr>"

text \<open>\<^verbatim>\<open>COUNT(DISTINCT ...)\<close> and \<^verbatim>\<open>GROUP BY\<close> with such a count.\<close>

definition count_distinct :: "'a list \<Rightarrow> int" where
  "count_distinct xs = int (length (remdups xs))"

definition group_count ::
  "('row \<Rightarrow> string) \<Rightarrow> ('row \<Rightarrow> int) \<Rightarrow> 'row list \<Rightarrow> (string \<times> int) list" where
  "group_count key counted rows =
     map (\<lambda>k. (k, count_distinct (map counted (filter (\<lambda>r. key r = k) rows))))
       (sort (remdups (map key rows)))"

text \<open>\<^verbatim>\<open>attendance a JOIN students s ON a.student_id = s.id\<close>, and the join with subjects.\<close>

definition attendance_students :: "database \<Rightarrow> (attendance_row \<times> student) list" where
  "attendance_students db =
     concat (map (\<lambda>a. map (\<lambda>s. (a, s)) (filter (\<lambda>s. a_student_id a = s_id s) (students db)))
       (attendance db))"

definition with_subjects ::
  "database \<Rightarrow> (attendance_row \<times> student) list \<Rightarrow> ((attendance_row \<times> student) \<times> subject) list"
  where
  "with_subjects db rows =
     concat (map (\<lambda>(a, s). map (\<lambda>sub. ((a, s), sub))
                   (filter (\<lambda>sub. a_subject_id a = sub_id sub) (subjects db))) rows)"

text \<open>
  The parameters of the total query are the elements of \<open>params\<close> that occur in the
  list \<^verbatim>\<open>[branch, semester, section]\<close> of the raw arguments; its conditions are the
  truthy ones of the three.
\<close>

definition get_attendance_stats ::
  "database \<Rightarrow> string option \<Rightarrow> int option \<Rightarrow> string option \<Rightarrow> int option \<Rightarrow> string option
     \<Rightarrow> py_exn + stats" where
  "get_attendance_stats db date_filter subject_id branch semester section =
     (case conn_state db of
        ConnectFails \<Rightarrow> Inl OperationalError
      | QueryFails e \<Rightarrow> Inr zero_stats
      | Online \<Rightarrow>
          (let conditions =
                 (if str_param date_filter = [] then [] else [\<lambda>(a, s). PStr (a_date a)])
                 @ (if int_param subject_id = [] then [] else [\<lambda>(a, s). PInt (a_subject_id a)])
                 @ (if str_param branch = [] then [] else [\<lambda>(a, s). PStr (s_branch s)])
                 @ (if int_param semester = [] then [] else [\<lambda>(a, s). PInt (s_semester s)])
                 @ (if str_param section = [] then [] else [\<lambda>(a, s). PStr (s_section s)]);
               params = str_param date_filter @ int_param subject_id @ str_param branch
                        @ int_param semester @ str_param section;
               student_conditions =
                 (if str_param branch = [] then [] else [\<lambda>s. PStr (s_branch s)])
                 @ (if int_param semester = [] then [] else [\<lambda>s. PInt (s_semester s)])
                 @ (if str_param section = [] then [] else [\<lambda>s. PStr (s_section s)]);
               total_params =
                 filter (\<lambda>p. Some p \<in> set [map_option PStr branch, map_option PInt semester,
                                           map_option PStr section]) params
           in case bind student_conditions total_params of
                None \<Rightarrow> Inr zero_stats
              | Some student_selected \<Rightarrow>
                  (case bind conditions params of
                     None \<Rightarrow> Inr zero_stats
                   | Some selected \<Rightarrow>
                       (let total_students =
                              count_distinct (map s_id (filter student_selected (students db)));
                            present_rows =
                              filter (\<lambda>(a, s). selected (a, s) \<and> a_status a = ''present'')
                                (attendance_students db);
                            present_students =
                              count_distinct (map (\<lambda>(a, s). a_student_id a) present_rows);
                            absent_students = total_students - present_students
                        in Inr \<lparr>st_total = total_students, st_present = present_students,
                                st_absent = absent_students,
                                st_by_branch =
                                  group_count (\<lambda>(a, s). s_branch s) (\<lambda>(a, s). a_student_id a)
                                    present_rows,
                                st_by_subject =
                                  group_count (\<lambda>((a, s), sub). sub_name sub)
                                    (\<lambda>((a, s), sub). a_student_id a)
                                    (with_subjects db present_rows)\<rparr>))))"

text \<open>
  What the statistics are to count, stated on the rows: a student matches the
  organisational filters, and an attendance record matches the date and subject filters,
  when every filter that is given (truthy) equals the row's column.
\<close>

definition org_match :: "string option \<Rightarrow> int option \<Rightarrow> string option \<Rightarrow> student \<Rightarrow> bool" where
  "org_match branch semester section s =
     ((str_param branch = [] \<or> branch = Some (s_branch s))
      \<and> (int_param semester = [] \<or> semester = Some (s_semester s))
      \<and> (str_param section = [] \<or> section = Some (s_section s)))"

definition record_match :: "string option \<Rightarrow> int option \<Rightarrow> attendance_row \<Rightarrow> bool" where
  "record_match date_filter subject_id a =
     ((str_param date_filter = [] \<or> date_filter = Some (a_date a))
      \<and> (int_param subject_id = [] \<or> subject_id = Some (a_subject_id a)))"

section \<open>Scenario data\<close>

text \<open>
  Scenario D of the specification: one student, the subjects ACT1 and ACT2, one pending
  attendance record for each on 2024-01-10, and a transport that refuses the report of
  ACT1 and accepts every other.
\<close>

definition scenario_db :: database where
  "scenario_db =
     \<lparr>students = [\<lparr>s_id = 1, s_roll_no = ''R1'', s_name = ''Asha'', s_branch = ''CSE'',
                   s_semester = 3, s_section = ''A'', s_email = None,
                   s_face_encoding = None\<rparr>],
      subjects = [\<lparr>sub_id = 1, sub_code = ''ACT1'', sub_name = ''Algebra'',
                   sub_branch = ''CSE'', sub_semester = 3\<rparr>,
                  \<lparr>sub_id = 2, sub_code = ''ACT2'', sub_name = ''Biology'',
                   sub_branch = ''CSE'', sub_semester = 3\<rparr>],
      attendance = [\<lparr>a_id = 1, a_student_id = 1, a_subject_id = 1, a_date = ''2024-01-10'',
                     a_time = ''09:00:00'', a_status = ''present'', a_synced = False\<rparr>,
                    \<lparr>a_id = 2, a_student_id = 1, a_subject_id = 2, a_date = ''2024-01-10'',
                     a_time = ''10:00:00'', a_status = ''present'', a_synced = False\<rparr>],
      attendance_seq = 2, conn_state = Online\<rparr>"

definition act1_refused :: transport where
  "act1_refused message =
     (if r_subject_code message = ''ACT1'' then (False, ''timeout'') else (True, ''sent''))"

definition scenario_clock :: "nat \<Rightarrow> string" where
  "scenario_clock n = ''2024-01-10 18:00:00''"

text \<open>
  Scenario E of the specification: three students of semester 3, two of them present for
  the subject with id 3 on 2024-01-10.
\<close>

definition stats_db :: database where
  "stats_db =
     \<lparr>students = [\<lparr>s_id = 1, s_roll_no = ''R1'', s_name = ''Asha'', s_branch = ''CSE'',
                   s_semester = 3, s_section = ''A'', s_email = None,
                   s_face_encoding = None\<rparr>,
                  \<lparr>s_id = 2, s_roll_no = ''R2'', s_name = ''Bala'', s_branch = ''CSE'',
                   s_semester = 3, s_section = ''A'', s_email = None,
                   s_face_encoding = None\<rparr>,
                  \<lparr>s_id = 3, s_roll_no = ''R3'', s_name = ''Chitra'', s_branch = ''CSE'',
                   s_semester = 3, s_section = ''B'', s_email = None,
                   s_face_encoding = None\<rparr>],
      subjects = [\<lparr>sub_id = 3, sub_code = ''ACT1'', sub_name = ''Algebra'',
                   sub_branch = ''CSE'', sub_semester = 3\<rparr>],
      attendance = [\<lparr>a_id = 1, a_student_id = 1, a_subject_id = 3, a_date = ''2024-01-10'',
                     a_time = ''09:00:00'', a_status = ''present'', a_synced = False\<rparr>,
                    \<lparr>a_id = 2, a_student_id = 2, a_subject_id = 3, a_date = ''2024-01-10'',
                     a_time = ''09:00:05'', a_status = ''present'', a_synced = False\<rparr>],
      attendance_seq = 2, conn_state = Online\<rparr>"

section \<open>Properties of recognition and enrollment encoding\<close>

lemma length_detect_faces: "length (detect_faces cascade img) = length (cascade img)"
  by (simp add: detect_faces_def)

text \<open>
  C10. Enrollment encoding fails, with a message and no encoding, exactly when the number
  of detected faces is not one; with exactly one detected face it returns the vector of
  128 ones and no error, so two images with one face each get the same encoding.
\<close>

theorem get_face_encoding_single_face:
  "(encoding_error (get_face_encoding cascade img)
      \<longleftrightarrow> length (detect_faces cascade img) \<noteq> 1)
   \<and> (length (detect_faces cascade img) = 1
        \<longrightarrow> get_face_encoding cascade img = (Some (replicate 128 1), None))
   \<and> (length (detect_faces cascade img) = 1 \<and> length (detect_faces cascade img') = 1
        \<longrightarrow> fst (get_face_encoding cascade img) = fst (get_face_encoding cascade img')
            \<and> fst (get_face_encoding cascade img) \<noteq> None)"
proof -
  let ?n = "length (detect_faces cascade img)"
  consider "?n = 0" | "?n = 1" | "?n > 1" by linarith
  then have a: "encoding_error (get_face_encoding cascade img) \<longleftrightarrow> ?n \<noteq> 1"
    by cases (auto simp: get_face_encoding_def encoding_error_def Let_def)
  have b: "get_face_encoding cascade img = (Some (replicate 128 1), None)"
    if "length (detect_faces cascade img) = 1" for img
    using that by (auto simp: get_face_encoding_def Let_def)
  from a b show ?thesis by simp
qed

theorem get_face_encoding_single_face_witness:
  "encoding_error (get_face_encoding (\<lambda>img. img) ([] :: box list))
   \<and> encoding_error (get_face_encoding (\<lambda>img. img) [(1, 2, 3, 4), (5, 6, 7, 8)])
   \<and> length (detect_faces (\<lambda>img. img) [(10, 20, 30, 40)]) = 1
   \<and> get_face_encoding (\<lambda>img. img) [(10, 20, 30, 40)] = (Some (replicate 128 1), None)
   \<and> fst (get_face_encoding (\<lambda>img. img) [(10, 20, 30, 40)])
       = fst (get_face_encoding (\<lambda>img. img) [(0, 0, 5, 5)])"
proof -
  have l0: "length (detect_faces (\<lambda>img. img) ([] :: box list)) \<noteq> 1"
    and l2: "length (detect_faces (\<lambda>img. img) [(1, 2, 3, 4), (5, 6, 7, 8)]) \<noteq> 1"
    and l1: "length (detect_faces (\<lambda>img. img) [(10, 20, 30, 40)]) = 1"
    and l1': "length (detect_faces (\<lambda>img. img) [(0, 0, 5, 5)]) = 1"
    by (simp_all add: length_detect_faces)
  from l0 get_face_encoding_single_face [of "\<lambda>img. img" "[]"]
  have a: "encoding_error (get_face_encoding (\<lambda>img. img) ([] :: box list))" by blast
  from l2 get_face_encoding_single_face [of "\<lambda>img. img" "[(1, 2, 3, 4), (5, 6, 7, 8)]"]
  have b: "encoding_error (get_face_encoding (\<lambda>img. img) [(1, 2, 3, 4), (5, 6, 7, 8)])"
    by blast
  from l1 l1' get_face_encoding_single_face
    [of "\<lambda>img. img" "[(10, 20, 30, 40)]" "[(0, 0, 5, 5)]"]
  have c: "get_face_encoding (\<lambda>img. img) [(10, 20, 30, 40)] = (Some (replicate 128 1), None)"
    and d: "fst (get_face_encoding (\<lambda>img. img) [(10, 20, 30, 40)])
       = fst (get_face_encoding (\<lambda>img. img) [(0, 0, 5, 5)])"
    by blast+
  from a b l1 c d show ?thesis by blast
qed

text \<open>
  C9. With the gallery and the image fixed, the identities matched with the larger of two
  thresholds are among those matched with the smaller one. (The body of
  \<open>recognize_faces\<close> does not read the tolerance, so the two results are equal.)
\<close>

theorem recognize_faces_threshold_subset:
  "t1 < t2 \<Longrightarrow>
     matched_identities (recognize_faces cascade self img t2)
       \<subseteq> matched_identities (recognize_faces cascade self img t1)"
  by (simp add: recognize_faces_def)

theorem recognize_faces_threshold_subset_witness:
  "(5 / 10 :: real) < 6 / 10
   \<and> matched_identities (recognize_faces (\<lambda>img. img)
        \<lparr>known_face_encodings = [[1, 1]], known_face_names = [''Asha (R1)''],
         known_face_ids = [1]\<rparr> [(10, 20, 30, 40)] (6 / 10))
     \<subseteq> matched_identities (recognize_faces (\<lambda>img. img)
        \<lparr>known_face_encodings = [[1, 1]], known_face_names = [''Asha (R1)''],
         known_face_ids = [1]\<rparr> [(10, 20, 30, 40)] (5 / 10))"
proof -
  have h: "(5 / 10 :: real) < 6 / 10" by simp
  from h recognize_faces_threshold_subset [OF h] show ?thesis by (rule conjI)
qed

text \<open>
  C2, as the code has it. For every gallery, image and tolerance, \<open>recognize_faces\<close>
  returns, for each face the detector finds, the name \<^verbatim>\<open>"Student"\<close> and the id \<open>1\<close>;
  the result is the same for every gallery and every tolerance, no distance is computed
  or returned, and no face is reported as unknown.
\<close>

theorem recognize_faces_placeholder:
  "recognize_faces cascade self img tolerance
     = (detect_faces cascade img,
        replicate (length (cascade img)) ''Student'',
        replicate (length (cascade img)) 1)
   \<and> recognize_faces cascade self img tolerance = recognize_faces cascade self' img tolerance'
   \<and> \<not> is_unknown 1"
  by (simp add: recognize_faces_def map_replicate_const length_detect_faces is_unknown_def)

text \<open>
  C2, as stated, fails on the code. The gallery holds one identity, with id \<open>7\<close>; for an
  image with one detected face and tolerance \<open>0.6\<close> the result is the id \<open>1\<close>, which is
  neither the enrolled identity nor unknown.
\<close>

theorem recognize_faces_counterexample:
  "snd (snd (recognize_faces (\<lambda>img. img)
        \<lparr>known_face_encodings = [replicate 128 1], known_face_names = [''Asha (R7)''],
         known_face_ids = [7]\<rparr> [(10, 20, 30, 40)] (6 / 10))) = [1]
   \<and> 1 \<notin> set (known_face_ids
        \<lparr>known_face_encodings = [replicate 128 1], known_face_names = [''Asha (R7)''],
         known_face_ids = [7]\<rparr>)
   \<and> \<not> is_unknown 1"
  by (simp add: recognize_faces_def detect_faces_def is_unknown_def)

section \<open>Properties of the gallery reload\<close>

text \<open>
  C7, as the code has it. When the identity-store query fails, \<open>get_all_face_encodings\<close>
  returns the empty list, so \<open>load_known_faces\<close> empties the gallery and returns the
  count \<open>0\<close>, with nothing that tells its caller of the failure. When the database
  cannot be opened, the exception leaves \<open>load_known_faces\<close> before the gallery is
  touched: the previous gallery is kept and no count is returned. When the store answers,
  the gallery is exactly the students that have a stored encoding, in table order, and
  the count is their number; the three lists always have that same length.
\<close>

theorem load_known_faces_outcomes:
  "(conn_state db = QueryFails e \<longrightarrow>
      load_known_faces db self
        = (Inr 0, self\<lparr>known_face_encodings := [], known_face_names := [],
                       known_face_ids := []\<rparr>))
   \<and> (conn_state db = ConnectFails \<longrightarrow>
        load_known_faces db self = (Inl OperationalError, self))
   \<and> (conn_state db = Online \<longrightarrow>
        fst (load_known_faces db self)
          = Inr (length (filter (\<lambda>s. s_face_encoding s \<noteq> None) (students db)))
        \<and> known_face_ids (snd (load_known_faces db self))
          = map s_id (filter (\<lambda>s. s_face_encoding s \<noteq> None) (students db))
        \<and> length (known_face_encodings (snd (load_known_faces db self)))
          = length (known_face_ids (snd (load_known_faces db self)))
        \<and> length (known_face_names (snd (load_known_faces db self)))
          = length (known_face_ids (snd (load_known_faces db self))))"
proof -
  have len: "length (concat (map (\<lambda>row. case s_face_encoding row of None \<Rightarrow> []
                 | Some b \<Rightarrow> [f row b]) xs))
             = length (filter (\<lambda>s. s_face_encoding s \<noteq> None) xs)" for f :: "student \<Rightarrow> stored_encoding \<Rightarrow> face_row" and xs
    by (induction xs) (auto split: option.splits)
  have ids: "map f_id (concat (map (\<lambda>row. case s_face_encoding row of None \<Rightarrow> []
                 | Some b \<Rightarrow> [\<lparr>f_id = s_id row, f_roll_no = s_roll_no row, f_name = s_name row,
                              f_face_encoding = decode_face_encoding b\<rparr>]) xs))
             = map s_id (filter (\<lambda>s. s_face_encoding s \<noteq> None) xs)" for xs
    by (induction xs) (auto split: option.splits)
  show ?thesis
    by (simp add: load_known_faces_def get_all_face_encodings_def len ids)
qed

theorem load_known_faces_outcomes_witness:
  "load_known_faces
     \<lparr>students = [\<lparr>s_id = 1, s_roll_no = ''R1'', s_name = ''Asha'', s_branch = ''CSE'',
                   s_semester = 3, s_section = ''A'', s_email = None,
                   s_face_encoding = Some (Decodable [1, 1])\<rparr>],
      subjects = [], attendance = [], attendance_seq = 0,
      conn_state = QueryFails ''database is locked''\<rparr>
     \<lparr>known_face_encodings = [[1, 1]], known_face_names = [''Asha (R1)''],
      known_face_ids = [1]\<rparr>
   = (Inr 0, \<lparr>known_face_encodings = [], known_face_names = [], known_face_ids = []\<rparr>)
   \<and> load_known_faces
     \<lparr>students = [], subjects = [], attendance = [], attendance_seq = 0,
      conn_state = ConnectFails\<rparr>
     \<lparr>known_face_encodings = [[1, 1]], known_face_names = [''Asha (R1)''],
      known_face_ids = [1]\<rparr>
   = (Inl OperationalError,
      \<lparr>known_face_encodings = [[1, 1]], known_face_names = [''Asha (R1)''],
       known_face_ids = [1]\<rparr>)
   \<and> known_face_ids (snd (load_known_faces
     \<lparr>students = [\<lparr>s_id = 1, s_roll_no = ''R1'', s_name = ''Asha'', s_branch = ''CSE'',
                   s_semester = 3, s_section = ''A'', s_email = None,
                   s_face_encoding = Some (Decodable [1, 1])\<rparr>,
                  \<lparr>s_id = 2, s_roll_no = ''R2'', s_name = ''Bala'', s_branch = ''CSE'',
                   s_semester = 3, s_section = ''A'', s_email = None,
                   s_face_encoding = None\<rparr>],
      subjects = [], attendance = [], attendance_seq = 0, conn_state = Online\<rparr>
     \<lparr>known_face_encodings = [], known_face_names = [], known_face_ids = []\<rparr>)) = [1]"
  using load_known_faces_outcomes
     [of "\<lparr>students = [\<lparr>s_id = 1, s_roll_no = ''R1'', s_name = ''Asha'', s_branch = ''CSE'',
                   s_semester = 3, s_section = ''A'', s_email = None,
                   s_face_encoding = Some (Decodable [1, 1])\<rparr>],
      subjects = [], attendance = [], attendance_seq = 0,
      conn_state = QueryFails ''database is locked''\<rparr>" "''database is locked''"
      "\<lparr>known_face_encodings = [[1, 1]], known_face_names = [''Asha (R1)''],
      known_face_ids = [1]\<rparr>"]
    load_known_faces_outcomes
     [of "\<lparr>students = [], subjects = [], attendance = [], attendance_seq = 0,
      conn_state = ConnectFails\<rparr>" "''x''"
      "\<lparr>known_face_encodings = [[1, 1]], known_face_names = [''Asha (R1)''],
      known_face_ids = [1]\<rparr>"]
    load_known_faces_outcomes
     [of "\<lparr>students = [\<lparr>s_id = 1, s_roll_no = ''R1'', s_name = ''Asha'', s_branch = ''CSE'',
                   s_semester = 3, s_section = ''A'', s_email = None,
                   s_face_encoding = Some (Decodable [1, 1])\<rparr>,
                  \<lparr>s_id = 2, s_roll_no = ''R2'', s_name = ''Bala'', s_branch = ''CSE'',
                   s_semester = 3, s_section = ''A'', s_email = None,
                   s_face_encoding = None\<rparr>],
      subjects = [], attendance = [], attendance_seq = 0, conn_state = Online\<rparr>" "''x''"
      "\<lparr>known_face_encodings = [], known_face_names = [], known_face_ids = []\<rparr>"]
  by simp

text \<open>
  C7, as stated, fails on the code. A gallery of one identity is loaded; the store's query
  then fails (the database is locked): the reload returns the count \<open>0\<close> as an ordinary
  result and the gallery is empty afterwards, so the previous snapshot is not retained.
\<close>

theorem load_known_faces_counterexample:
  "load_known_faces
     \<lparr>students = [\<lparr>s_id = 1, s_roll_no = ''R1'', s_name = ''Asha'', s_branch = ''CSE'',
                   s_semester = 3, s_section = ''A'', s_email = None,
                   s_face_encoding = Some (Decodable (replicate 128 1))\<rparr>],
      subjects = [], attendance = [], attendance_seq = 0,
      conn_state = QueryFails ''database is locked''\<rparr>
     \<lparr>known_face_encodings = [replicate 128 1], known_face_names = [''Asha (R1)''],
      known_face_ids = [1]\<rparr>
   = (Inr 0, \<lparr>known_face_encodings = [], known_face_names = [], known_face_ids = []\<rparr>)"
  by (simp add: load_known_faces_def get_all_face_encodings_def)

section \<open>Properties of the attendance ledger\<close>

lemma find_None_filter: "find P xs = None \<Longrightarrow> filter P xs = []"
  by (induction xs) (auto split: if_splits)

lemma find_Some_filter: "find P xs = Some x \<Longrightarrow> \<exists>ys. filter P xs = x # ys"
  by (induction xs) (auto split: if_splits)

lemma find_Some_single:
  assumes "find P xs = Some x" and "length (filter P xs) \<le> 1"
  shows "filter P xs = [x]"
proof -
  from find_Some_filter [OF assms(1)] obtain ys where "filter P xs = x # ys" ..
  with assms(2) show ?thesis by (cases ys) auto
qed

lemma filter_key_update:
  "filter (same_key sid subj d)
     (map (\<lambda>a. if Q a then a\<lparr>a_time := t, a_status := s, a_synced := y\<rparr> else a) xs)
   = map (\<lambda>a. if Q a then a\<lparr>a_time := t, a_status := s, a_synced := y\<rparr> else a)
       (filter (same_key sid subj d) xs)"
  by (induction xs) (auto simp: same_key_def)

lemma mark_attendance_conn_state:
  "conn_state (snd (mark_attendance db d t sid subj s y)) = conn_state db"
  by (auto simp: mark_attendance_def split: db_status.splits option.splits)

text \<open>One executed call, on a ledger with at most one record of the key.\<close>

lemma mark_attendance_step:
  assumes on: "conn_state db = Online"
    and one: "length (records_for db sid subj d) \<le> 1"
  shows "\<exists>r. records_for (snd (mark_attendance db d t sid subj s y)) sid subj d = [r]
           \<and> a_status r = s \<and> a_time r = t \<and> a_synced r = y"
proof (cases "find (same_key sid subj d) (attendance db)")
  case None
  then have "filter (same_key sid subj d) (attendance db) = []"
    by (rule find_None_filter)
  with None on show ?thesis
    by (simp add: mark_attendance_def records_for_def same_key_def)
next
  case (Some e)
  have "filter (same_key sid subj d) (attendance db) = [e]"
    using find_Some_single [OF Some] one by (simp add: records_for_def)
  with Some on show ?thesis
    by (simp add: mark_attendance_def records_for_def filter_key_update)
qed

lemma mark_all_last:
  assumes "conn_state db = Online" and "calls \<noteq> []"
    and "length (records_for db sid subj d) \<le> 1"
  shows "\<exists>r. records_for (mark_all db d sid subj calls) sid subj d = [r]
           \<and> a_status r = call_status (last calls) \<and> a_time r = call_time (last calls)
           \<and> a_synced r = call_sync (last calls)"
  using assms
proof (induction calls arbitrary: db)
  case Nil
  then show ?case by simp
next
  case (Cons c cs)
  let ?db = "snd (mark_attendance db d (call_time c) sid subj (call_status c) (call_sync c))"
  from mark_attendance_step [OF Cons.prems(1) Cons.prems(3)]
  obtain r where r: "records_for ?db sid subj d = [r]" "a_status r = call_status c"
    "a_time r = call_time c" "a_synced r = call_sync c"
    by blast
  show ?case
  proof (cases "cs = []")
    case True
    with r show ?thesis by simp
  next
    case False
    have "conn_state ?db = Online"
      using Cons.prems(1) by (simp add: mark_attendance_conn_state)
    moreover have "length (records_for ?db sid subj d) \<le> 1"
      using r(1) by simp
    ultimately show ?thesis
      using Cons.IH [of ?db] False by simp
  qed
qed

text \<open>
  C1. Any non-empty sequence of executed \<open>mark_attendance\<close> calls for one
  (student, subject, date) key, started on a ledger with at most one record of the key,
  ends with exactly one record of the key, and its status and time are those of the last
  call.
\<close>

theorem mark_attendance_sequence_one_record:
  assumes "conn_state db = Online" and "calls \<noteq> []"
    and "length (records_for db student_id subject_id day) \<le> 1"
  shows "\<exists>r. records_for (mark_all db day student_id subject_id calls) student_id subject_id day
               = [r]
           \<and> a_status r = call_status (last calls) \<and> a_time r = call_time (last calls)"
  using mark_all_last [OF assms] by blast

theorem mark_attendance_sequence_one_record_witness:
  "conn_state \<lparr>students = [], subjects = [],
      attendance = [\<lparr>a_id = 4, a_student_id = 1, a_subject_id = 2, a_date = ''2024-01-10'',
                     a_time = ''08:55:00'', a_status = ''absent'', a_synced = True\<rparr>],
      attendance_seq = 4, conn_state = Online\<rparr> = Online
   \<and> [\<lparr>call_time = ''09:00:00'', call_status = ''present'', call_sync = False\<rparr>,
       \<lparr>call_time = ''09:05:00'', call_status = ''late'', call_sync = False\<rparr>] \<noteq> []
   \<and> (\<exists>r. records_for
         (mark_all \<lparr>students = [], subjects = [],
              attendance = [\<lparr>a_id = 4, a_student_id = 1, a_subject_id = 2,
                             a_date = ''2024-01-10'', a_time = ''08:55:00'',
                             a_status = ''absent'', a_synced = True\<rparr>],
              attendance_seq = 4, conn_state = Online\<rparr>
            ''2024-01-10'' 1 2
            [\<lparr>call_time = ''09:00:00'', call_status = ''present'', call_sync = False\<rparr>,
             \<lparr>call_time = ''09:05:00'', call_status = ''late'', call_sync = False\<rparr>])
         1 2 ''2024-01-10'' = [r]
       \<and> a_status r = ''late'' \<and> a_time r = ''09:05:00'')"
proof -
  let ?db = "\<lparr>students = [], subjects = [],
      attendance = [\<lparr>a_id = 4, a_student_id = 1, a_subject_id = 2, a_date = ''2024-01-10'',
                     a_time = ''08:55:00'', a_status = ''absent'', a_synced = True\<rparr>],
      attendance_seq = 4, conn_state = Online\<rparr>"
  let ?calls = "[\<lparr>call_time = ''09:00:00'', call_status = ''present'', call_sync = False\<rparr>,
       \<lparr>call_time = ''09:05:00'', call_status = ''late'', call_sync = False\<rparr>]"
  have h1: "conn_state ?db = Online" by simp
  have h2: "?calls \<noteq> []" by simp
  have h3: "length (records_for ?db 1 2 ''2024-01-10'') \<le> 1"
    by (simp add: records_for_def same_key_def)
  from mark_attendance_sequence_one_record [OF h1 h2 h3] h1 h2 show ?thesis by simp
qed

text \<open>
  C6, as the code has it. An executed \<open>mark_attendance\<close> call, on a ledger with at most
  one record of the key, leaves exactly one record of the key, and its synced flag is the
  call's \<open>sync\<close> argument: an existing record's flag is overwritten by every call, and
  an inserted record is unsynced only when the caller passes \<open>sync = False\<close>.
\<close>

theorem mark_attendance_synced_is_sync_argument:
  assumes "conn_state db = Online"
    and "length (records_for db student_id subject_id day) \<le> 1"
  shows "\<exists>r. records_for (snd (mark_attendance db day now student_id subject_id status sync))
               student_id subject_id day = [r]
           \<and> a_synced r = sync"
  using mark_attendance_step [OF assms] by blast

theorem mark_attendance_synced_is_sync_argument_witness:
  "conn_state \<lparr>students = [], subjects = [], attendance = [], attendance_seq = 0,
      conn_state = Online\<rparr> = Online
   \<and> (\<exists>r. records_for
         (snd (mark_attendance \<lparr>students = [], subjects = [], attendance = [],
                 attendance_seq = 0, conn_state = Online\<rparr>
               ''2024-01-10'' ''09:00:00'' 1 2 ''present'' False))
         1 2 ''2024-01-10'' = [r]
       \<and> a_synced r = False)"
proof -
  let ?db = "\<lparr>students = [], subjects = [], attendance = [], attendance_seq = 0,
      conn_state = Online\<rparr>"
  have h1: "conn_state ?db = Online" by simp
  have h2: "length (records_for ?db 1 2 ''2024-01-10'') \<le> 1"
    by (simp add: records_for_def)
  from mark_attendance_synced_is_sync_argument
      [OF h1 h2, of "''09:00:00''" "''present''" False] h1
  show ?thesis by simp
qed

text \<open>
  C6, as stated, fails on the code. With the default \<open>sync = True\<close> a call on an empty
  ledger inserts a record that is already synced, and a call on a pending record of the
  key sets its synced flag, although the caller asked for no re-sync.
\<close>

theorem mark_attendance_synced_counterexample:
  "records_for
     (snd (mark_attendance \<lparr>students = [], subjects = [], attendance = [],
             attendance_seq = 0, conn_state = Online\<rparr>
           ''2024-01-10'' ''09:00:00'' 1 2 ''present'' True))
     1 2 ''2024-01-10''
   = [\<lparr>a_id = 1, a_student_id = 1, a_subject_id = 2, a_date = ''2024-01-10'',
       a_time = ''09:00:00'', a_status = ''present'', a_synced = True\<rparr>]
   \<and> records_for
     (snd (mark_attendance \<lparr>students = [], subjects = [],
             attendance = [\<lparr>a_id = 1, a_student_id = 1, a_subject_id = 2,
                            a_date = ''2024-01-10'', a_time = ''09:00:00'',
                            a_status = ''present'', a_synced = False\<rparr>],
             attendance_seq = 1, conn_state = Online\<rparr>
           ''2024-01-10'' ''09:05:00'' 1 2 ''present'' True))
     1 2 ''2024-01-10''
   = [\<lparr>a_id = 1, a_student_id = 1, a_subject_id = 2, a_date = ''2024-01-10'',
       a_time = ''09:05:00'', a_status = ''present'', a_synced = True\<rparr>]"
  by (simp add: mark_attendance_def records_for_def same_key_def next_attendance_id_def)

section \<open>Properties of the reconciler\<close>

subsection \<open>Marking rows synced\<close>

lemma synced_where_simps [simp]:
  "conn_state (synced_where P db) = conn_state db"
  "students (synced_where P db) = students db"
  "subjects (synced_where P db) = subjects db"
  "attendance (synced_where P db)
     = map (\<lambda>a. if P (a_id a) then a\<lparr>a_synced := True\<rparr> else a) (attendance db)"
  by (simp_all add: synced_where_def)

lemma synced_where_twice:
  "synced_where P (synced_where Q db) = synced_where (\<lambda>i. Q i \<or> P i) db"
  by (auto simp: synced_where_def)

lemma synced_where_none: "synced_where (\<lambda>i. False) db = db"
  by (simp add: synced_where_def)

lemma mark_attendance_synced_online:
  "conn_state db = Online \<Longrightarrow>
     mark_attendance_synced i db = (Inr True, synced_where (\<lambda>j. j = i) db)"
  by (simp add: mark_attendance_synced_def)

lemma mark_rows_synced_online:
  "conn_state db = Online \<Longrightarrow>
     mark_rows_synced ids db = (None, synced_where (\<lambda>i. i \<in> set ids) db)"
proof (induction ids arbitrary: db)
  case Nil
  then show ?case by (simp add: synced_where_none)
next
  case (Cons i ids)
  have "(\<lambda>j. j = i \<or> j \<in> set ids) = (\<lambda>j. j \<in> set (i # ids))" by auto
  with Cons show ?case
    by (simp add: mark_attendance_synced_online synced_where_twice)
qed

lemma send_attendance_report_online:
  assumes "conn_state db = Online" and "g \<noteq> []"
  shows "send_attendance_report deliver now db sent g =
           (Inr (deliver (format_report (hd g) g now)),
            if fst (deliver (format_report (hd g) g now))
            then synced_where (\<lambda>i. i \<in> set (map u_id g)) db else db,
            sent @ [format_report (hd g) g now])"
proof -
  from assms(2) obtain x xs where g: "g = x # xs" by (cases g) auto
  show ?thesis
    unfolding g send_attendance_report_def
    by (simp add: mark_rows_synced_online [OF assms(1)] Let_def split: prod.splits)
qed

subsection \<open>The loop over the batches\<close>

lemma delivered_ids_Cons:
  "delivered_ids (d # ds) =
     (if delivered d then map u_id (snd (d_batch d)) else []) @ delivered_ids ds"
  by (simp add: delivered_ids_def)

lemma delivered_ids_Nil [simp]: "delivered_ids [] = []"
  by (simp add: delivered_ids_def)

lemma sync_groups_online:
  assumes "conn_state db = Online" and "\<forall>b \<in> set bs. snd b \<noteq> []"
  shows "sync_groups deliver clock bs (sc, ec, errs) db sent =
           (Inr (sc + length (filter delivered (deliveries deliver clock (sc + ec) bs)),
                 ec + length (filter (\<lambda>d. \<not> delivered d) (deliveries deliver clock (sc + ec) bs)),
                 errs @ map failure_reason
                          (filter (\<lambda>d. \<not> delivered d) (deliveries deliver clock (sc + ec) bs))),
            synced_where (\<lambda>i. i \<in> set (delivered_ids (deliveries deliver clock (sc + ec) bs))) db,
            sent @ map d_report (deliveries deliver clock (sc + ec) bs))"
  using assms
proof (induction bs arbitrary: sc ec errs db sent)
  case Nil
  then show ?case by (simp add: synced_where_none)
next
  case (Cons b bs)
  obtain k g where b: "b = (k, g)" by (cases b)
  from Cons.prems b have g: "g \<noteq> []" by simp
  let ?m = "format_report (hd g) g (clock (sc + ec))"
  note step = send_attendance_report_online [OF Cons.prems(1) g, of deliver "clock (sc + ec)" sent]
  have rest: "\<forall>b \<in> set bs. snd b \<noteq> []" using Cons.prems(2) by simp
  let ?ds = "deliveries deliver clock (Suc (sc + ec)) bs"
  have dels: "deliveries deliver clock (sc + ec) (b # bs) = (b, ?m, deliver ?m) # ?ds"
    by (simp add: b)
  obtain ok err where out: "deliver ?m = (ok, err)" by (cases "deliver ?m")
  show ?case
  proof (cases ok)
    case True
    let ?db = "synced_where (\<lambda>i. i \<in> set (map u_id g)) db"
    have on: "conn_state ?db = Online"
      using Cons.prems(1) by simp
    have "sync_groups deliver clock (b # bs) (sc, ec, errs) db sent
            = sync_groups deliver clock bs (Suc sc, ec, errs) ?db (sent @ [?m])"
      using True by (simp add: b step out)
    also note Cons.IH [OF on rest, of "Suc sc" ec errs "sent @ [?m]"]
    finally show ?thesis
      using True
      by (simp add: dels out delivered_ids_Cons delivered_def d_batch_def d_report_def
          failure_reason_def synced_where_twice b)
  next
    case False
    have "sync_groups deliver clock (b # bs) (sc, ec, errs) db sent
            = sync_groups deliver clock bs (sc, Suc ec, errs @ [err]) db (sent @ [?m])"
      using False by (simp add: b step out)
    also note Cons.IH [OF Cons.prems(1) rest, of sc "Suc ec" "errs @ [err]" "sent @ [?m]"]
    finally show ?thesis
      using False
      by (simp add: dels out delivered_ids_Cons delivered_def d_batch_def d_report_def
          failure_reason_def b)
  qed
qed

lemma map_d_batch_deliveries: "map d_batch (deliveries deliver clock n bs) = bs"
  by (induction bs arbitrary: n) (auto simp: d_batch_def)

subsection \<open>Batches\<close>

lemma groupby_member:
  "b \<in> set (groupby rows) \<longleftrightarrow>
     fst b \<in> group_key ` set rows \<and> snd b = filter (\<lambda>r. group_key r = fst b) rows"
  by (cases b) (auto simp: groupby_def)

lemma groupby_nonempty: "b \<in> set (groupby rows) \<Longrightarrow> snd b \<noteq> []"
  by (auto simp: groupby_member filter_empty_conv)

lemma groupby_rows: "b \<in> set (groupby rows) \<Longrightarrow> r \<in> set (snd b) \<Longrightarrow>
    r \<in> set rows \<and> group_key r = fst b"
  by (auto simp: groupby_member)

lemma groupby_distinct: "distinct (map fst (groupby rows))"
  by (simp add: groupby_def comp_def)

lemma groupby_Nil [simp]: "groupby [] = []"
  by (simp add: groupby_def)

lemma groupby_covers: "r \<in> set rows \<Longrightarrow> \<exists>b \<in> set (groupby rows). r \<in> set (snd b)"
proof -
  assume r: "r \<in> set rows"
  let ?b = "(group_key r, filter (\<lambda>x. group_key x = group_key r) rows)"
  from r have "?b \<in> set (groupby rows)" by (simp add: groupby_member)
  moreover from r have "r \<in> set (snd ?b)" by simp
  ultimately show ?thesis by blast
qed

subsection \<open>The pending rows\<close>

lemma set_order_by_desc [simp]: "set (order_by_desc k xs) = set xs"
  by (simp add: order_by_desc_def)

lemma filter_order_by_desc: "filter P (order_by_desc k xs) = order_by_desc k (filter P xs)"
  by (metis order_by_desc_def rev_filter filter_sort)

lemma unsynced_join_origin:
  "r \<in> set (unsynced_join db) \<Longrightarrow>
     \<exists>a \<in> set (attendance db). \<not> a_synced a \<and> u_id r = a_id a
        \<and> group_key r = (a_date a, a_subject_id a)"
  by (auto simp: unsynced_join_def joined_row_def group_key_def)

lemma concat_filter_marked:
  assumes "\<And>a r. r \<in> set (F a) \<Longrightarrow> u_id r = a_id a"
  shows "concat (map F (filter (\<lambda>a. \<not> a_synced a)
           (map (\<lambda>a. if P (a_id a) then a\<lparr>a_synced := True\<rparr> else a) xs)))
         = filter (\<lambda>r. \<not> P (u_id r)) (concat (map F (filter (\<lambda>a. \<not> a_synced a) xs)))"
proof (induction xs)
  case Nil
  then show ?case by simp
next
  case (Cons a xs)
  have 1: "filter (\<lambda>r. \<not> P (u_id r)) (F a) = []" if "P (a_id a)"
    using that assms by (auto simp: filter_empty_conv)
  have 2: "filter (\<lambda>r. \<not> P (u_id r)) (F a) = F a" if "\<not> P (a_id a)"
    using that assms by (auto simp: filter_id_conv)
  show ?case using Cons.IH 1 2 by simp
qed

lemma unsynced_join_synced_where:
  "unsynced_join (synced_where P db) = filter (\<lambda>r. \<not> P (u_id r)) (unsynced_join db)"
  unfolding unsynced_join_def synced_where_simps
  by (rule concat_filter_marked) (auto simp: joined_row_def)

lemma get_unsynced_synced_where:
  "conn_state db = Online \<Longrightarrow>
     get_unsynced_attendance db = Inr rows \<Longrightarrow>
     get_unsynced_attendance (synced_where P db) = Inr (filter (\<lambda>r. \<not> P (u_id r)) rows)"
  by (auto simp: get_unsynced_attendance_def unsynced_join_synced_where filter_order_by_desc)

lemma unsynced_rows_origin:
  assumes "get_unsynced_attendance db = Inr rows" and "r \<in> set rows"
  shows "\<exists>a \<in> set (attendance db). \<not> a_synced a \<and> u_id r = a_id a
           \<and> group_key r = (a_date a, a_subject_id a)"
  using assms
  by (auto simp: get_unsynced_attendance_def split: db_status.splits
      dest!: unsynced_join_origin)

lemma pending_batches_online:
  "pending_batches db \<noteq> [] \<Longrightarrow> conn_state db = Online"
  by (auto simp: pending_batches_def get_unsynced_attendance_def split: db_status.splits)

subsection \<open>A run of the reconciler\<close>

lemma run_deliveries_batches:
  "map d_batch (run_deliveries deliver clock db) = pending_batches db"
  by (simp add: run_deliveries_def map_d_batch_deliveries)

lemma sync_pending_state:
  "snd (sync_pending_attendance deliver clock db sent)
     = (synced_where (\<lambda>i. i \<in> set (delivered_ids (run_deliveries deliver clock db))) db,
        sent @ map d_report (run_deliveries deliver clock db))"
proof (cases "conn_state db")
  case Online
  let ?rows = "order_by_desc (\<lambda>r. (u_date r, u_time r)) (unsynced_join db)"
  have rows: "get_unsynced_attendance db = Inr ?rows"
    using Online by (simp add: get_unsynced_attendance_def)
  have ne: "\<forall>b \<in> set (groupby ?rows). snd b \<noteq> []"
    using groupby_nonempty by blast
  show ?thesis
    using sync_groups_online [OF Online ne, of deliver clock 0 0 "[]" sent]
    by (simp add: sync_pending_attendance_def rows run_deliveries_def pending_batches_def
        synced_where_none)
next
  case ConnectFails
  then show ?thesis
    by (simp add: sync_pending_attendance_def get_unsynced_attendance_def run_deliveries_def
        pending_batches_def synced_where_none)
next
  case (QueryFails e)
  then show ?thesis
    by (simp add: sync_pending_attendance_def get_unsynced_attendance_def run_deliveries_def
        pending_batches_def synced_where_none)
qed

lemma delivered_ids_member:
  "i \<in> set (delivered_ids ds) \<longleftrightarrow> (\<exists>d \<in> set ds. delivered d \<and> i \<in> batch_ids (d_batch d))"
  by (induction ds) (auto simp: delivered_ids_Cons batch_ids_def)

lemma deliveries_keys_inj:
  "inj_on (\<lambda>d. fst (d_batch d)) (set (run_deliveries deliver clock db))"
proof -
  have "map (\<lambda>d. fst (d_batch d)) (run_deliveries deliver clock db)
          = map fst (pending_batches db)"
    using run_deliveries_batches [of deliver clock db, symmetric] by (simp add: comp_def)
  moreover have "distinct (map fst (pending_batches db))"
    by (simp add: pending_batches_def groupby_distinct split: sum.splits)
  ultimately have "distinct (map (\<lambda>d. fst (d_batch d)) (run_deliveries deliver clock db))"
    by simp
  then show ?thesis by (simp only: distinct_map)
qed

lemma row_of_id:
  assumes "distinct (map a_id xs)" and "a \<in> set xs" and "a' \<in> set xs" and "a_id a = a_id a'"
  shows "a = a'"
  using assms by (auto simp: distinct_map inj_on_def)

text \<open>
  With the ids of the attendance table distinct, the rows of a batch the transport
  refused are not among the rows a run marks.
\<close>

lemma failed_batch_untouched:
  assumes dist: "distinct (map a_id (attendance db))"
    and rows: "get_unsynced_attendance db = Inr rows"
    and d: "d \<in> set (run_deliveries deliver clock db)" and nd: "\<not> delivered d"
    and i: "i \<in> batch_ids (d_batch d)"
  shows "i \<notin> set (delivered_ids (run_deliveries deliver clock db))"
proof
  let ?ds = "run_deliveries deliver clock db"
  assume "i \<in> set (delivered_ids ?ds)"
  then obtain d' where d': "d' \<in> set ?ds" "delivered d'" "i \<in> batch_ids (d_batch d')"
    by (auto simp: delivered_ids_member)
  have pbs: "pending_batches db = groupby rows"
    by (simp add: pending_batches_def rows)
  have bin: "d_batch x \<in> set (groupby rows)" if "x \<in> set ?ds" for x
    using that run_deliveries_batches [of deliver clock db] pbs
    by (metis image_eqI set_map)
  from i obtain r where r: "r \<in> set (snd (d_batch d))" "u_id r = i"
    by (auto simp: batch_ids_def)
  from d'(3) obtain r' where r': "r' \<in> set (snd (d_batch d'))" "u_id r' = i"
    by (auto simp: batch_ids_def)
  from groupby_rows [OF bin [OF d] r(1)]
  have rr: "r \<in> set rows" "group_key r = fst (d_batch d)" by auto
  from groupby_rows [OF bin [OF d'(1)] r'(1)]
  have rr': "r' \<in> set rows" "group_key r' = fst (d_batch d')" by auto
  from unsynced_rows_origin [OF rows rr(1)] obtain a
    where a: "a \<in> set (attendance db)" "u_id r = a_id a"
      "group_key r = (a_date a, a_subject_id a)" by blast
  from unsynced_rows_origin [OF rows rr'(1)] obtain a'
    where a': "a' \<in> set (attendance db)" "u_id r' = a_id a'"
      "group_key r' = (a_date a', a_subject_id a')" by blast
  have "a = a'"
    using row_of_id [OF dist a(1) a'(1)] a(2) a'(2) r(2) r'(2) by simp
  with a(3) a'(3) rr(2) rr'(2) have "fst (d_batch d) = fst (d_batch d')" by simp
  with deliveries_keys_inj [of deliver clock db] d d'(1) have "d = d'"
    by (auto dest: inj_onD)
  with nd d'(2) show False by simp
qed

text \<open>
  C3. A run of the reconciler sets the synced flag of exactly the attendance rows that
  belong to a batch the transport confirmed, and changes nothing else. A batch whose
  delivery failed keeps every one of its rows unsynced, and the next run forms the same
  batch from them, unchanged. (The ids of the attendance table are distinct: the column
  is the primary key.)
\<close>

theorem reconcile_marks_only_confirmed_batches:
  assumes "distinct (map a_id (attendance db))"
  shows "attendance (fst (snd (sync_pending_attendance deliver clock db sent)))
           = map (\<lambda>a. if (\<exists>d \<in> set (run_deliveries deliver clock db).
                              delivered d \<and> a_id a \<in> batch_ids (d_batch d))
                        then a\<lparr>a_synced := True\<rparr> else a)
               (attendance db)
         \<and> (\<forall>d \<in> set (run_deliveries deliver clock db). \<not> delivered d \<longrightarrow>
              (\<forall>a \<in> set (attendance (fst (snd (sync_pending_attendance deliver clock db sent)))).
                  a_id a \<in> batch_ids (d_batch d) \<longrightarrow> \<not> a_synced a)
              \<and> d_batch d
                  \<in> set (pending_batches
                           (fst (snd (sync_pending_attendance deliver clock db sent)))))"
proof -
  let ?ds = "run_deliveries deliver clock db"
  let ?S = "\<lambda>i. i \<in> set (delivered_ids ?ds)"
  let ?db' = "fst (snd (sync_pending_attendance deliver clock db sent))"
  have db': "?db' = synced_where ?S db"
    by (simp add: sync_pending_state)
  have part1: "attendance ?db'
           = map (\<lambda>a. if (\<exists>d \<in> set ?ds. delivered d \<and> a_id a \<in> batch_ids (d_batch d))
                        then a\<lparr>a_synced := True\<rparr> else a) (attendance db)"
    by (simp add: db' delivered_ids_member)
  have part2: "(\<forall>a \<in> set (attendance ?db'). a_id a \<in> batch_ids (d_batch d) \<longrightarrow> \<not> a_synced a)
              \<and> d_batch d \<in> set (pending_batches ?db')"
    if d: "d \<in> set ?ds" and nd: "\<not> delivered d" for d
  proof -
    let ?b = "d_batch d"
    from d have "map d_batch ?ds \<noteq> []" by auto
    then have "pending_batches db \<noteq> []" by (simp add: run_deliveries_batches)
    then have on: "conn_state db = Online" by (rule pending_batches_online)
    then obtain rows where rows: "get_unsynced_attendance db = Inr rows"
      by (simp add: get_unsynced_attendance_def)
    have pbs: "pending_batches db = groupby rows"
      by (simp add: pending_batches_def rows)
    have bin: "?b \<in> set (groupby rows)"
      using d run_deliveries_batches [of deliver clock db] pbs
      by (metis image_eqI set_map)
    note untouched = failed_batch_untouched [OF assms rows d nd]
    have a_part: "\<forall>a \<in> set (attendance ?db'). a_id a \<in> batch_ids ?b \<longrightarrow> \<not> a_synced a"
    proof (intro ballI impI)
      fix a assume a: "a \<in> set (attendance ?db')" and i: "a_id a \<in> batch_ids ?b"
      from a obtain a0 where a0: "a0 \<in> set (attendance db)"
        "a = (if ?S (a_id a0) then a0\<lparr>a_synced := True\<rparr> else a0)"
        unfolding db' by auto
      then have ida: "a_id a = a_id a0" by (simp split: if_splits)
      with i untouched have "\<not> ?S (a_id a0)" by simp
      with a0 have eq: "a = a0" by simp
      from i obtain r where r: "r \<in> set (snd ?b)" "u_id r = a_id a"
        by (auto simp: batch_ids_def)
      from groupby_rows [OF bin r(1)] have "r \<in> set rows" by simp
      from unsynced_rows_origin [OF rows this] obtain a1
        where a1: "a1 \<in> set (attendance db)" "\<not> a_synced a1" "u_id r = a_id a1" by blast
      have "a1 = a0"
        using row_of_id [OF assms a1(1) a0(1)] a1(3) r(2) ida by simp
      with a1 eq show "\<not> a_synced a" by simp
    qed
    have b_part: "?b \<in> set (pending_batches ?db')"
    proof -
      let ?Q = "\<lambda>r. \<not> ?S (u_id r)"
      have un': "get_unsynced_attendance ?db' = Inr (filter ?Q rows)"
        unfolding db' by (rule get_unsynced_synced_where [OF on rows])
      have pb': "pending_batches ?db' = groupby (filter ?Q rows)"
        by (simp add: pending_batches_def un')
      have keep: "?Q r" if "r \<in> set (snd ?b)" for r
        using that untouched by (auto simp: batch_ids_def)
      from bin have k: "snd ?b = filter (\<lambda>r. group_key r = fst ?b) rows"
        by (simp add: groupby_member)
      have same: "filter (\<lambda>r. group_key r = fst ?b) (filter ?Q rows) = snd ?b"
      proof -
        have "filter (\<lambda>r. group_key r = fst ?b) (filter ?Q rows)
                = filter ?Q (filter (\<lambda>r. group_key r = fst ?b) rows)"
          by (simp add: conj_commute)
        also have "\<dots> = filter ?Q (snd ?b)" by (simp add: k [symmetric])
        also have "\<dots> = snd ?b" using keep by (simp add: filter_id_conv)
        finally show ?thesis .
      qed
      from groupby_nonempty [OF bin] obtain r0 where r0: "r0 \<in> set (snd ?b)"
        by (cases "snd ?b") auto
      from groupby_rows [OF bin r0] keep [OF r0]
      have "fst ?b \<in> group_key ` set (filter ?Q rows)" by force
      with same show ?thesis
        unfolding pb' groupby_member by simp
    qed
    from a_part b_part show ?thesis ..
  qed
  from part1 part2 show ?thesis by blast
qed

theorem reconcile_marks_only_confirmed_batches_witness:
  "distinct (map a_id (attendance scenario_db))
   \<and> \<not> delivered (hd (run_deliveries act1_refused scenario_clock scenario_db))
   \<and> fst (d_batch (hd (run_deliveries act1_refused scenario_clock scenario_db)))
       = (''2024-01-10'', 1)
   \<and> d_batch (hd (run_deliveries act1_refused scenario_clock scenario_db))
       \<in> set (pending_batches
                (fst (snd (sync_pending_attendance act1_refused scenario_clock scenario_db []))))
   \<and> map a_synced
       (attendance (fst (snd (sync_pending_attendance act1_refused scenario_clock scenario_db []))))
       = [False, True]"
proof -
  let ?ds = "run_deliveries act1_refused scenario_clock scenario_db"
  have h: "distinct (map a_id (attendance scenario_db))" by code_simp
  have d: "hd ?ds \<in> set ?ds" by code_simp
  have nd: "\<not> delivered (hd ?ds)" by code_simp
  have k: "fst (d_batch (hd ?ds)) = (''2024-01-10'', 1)" by code_simp
  have f: "map a_synced
       (attendance (fst (snd (sync_pending_attendance act1_refused scenario_clock scenario_db []))))
       = [False, True]" by code_simp
  from reconcile_marks_only_confirmed_batches [OF h, of act1_refused scenario_clock "[]"] d nd
  have "d_batch (hd ?ds)
       \<in> set (pending_batches
                (fst (snd (sync_pending_attendance act1_refused scenario_clock scenario_db []))))"
    by blast
  with h nd k f show ?thesis by blast
qed

subsection \<open>The result of a run\<close>

lemma groupby_Nil_iff: "groupby rows = [] \<longleftrightarrow> rows = []"
proof
  assume "groupby rows = []"
  then show "rows = []"
    using groupby_covers [of _ rows] by (cases rows) auto
qed simp

lemma sync_pending_result:
  assumes "pending_batches db \<noteq> []"
  shows "fst (sync_pending_attendance deliver clock db sent)
           = Inr (if filter (\<lambda>d. \<not> delivered d) (run_deliveries deliver clock db) = []
                  then (True, ''Successfully synced ''
                          @ str_nat (length (filter delivered (run_deliveries deliver clock db)))
                          @ '' attendance reports'')
                  else (False, ''Synced ''
                          @ str_nat (length (filter delivered (run_deliveries deliver clock db)))
                          @ '' reports, ''
                          @ str_nat (length (filter (\<lambda>d. \<not> delivered d)
                                               (run_deliveries deliver clock db)))
                          @ '' failed: ''
                          @ join '', '' (map failure_reason
                                           (filter (\<lambda>d. \<not> delivered d)
                                              (run_deliveries deliver clock db)))))"
proof -
  from assms have on: "conn_state db = Online" by (rule pending_batches_online)
  let ?rows = "order_by_desc (\<lambda>r. (u_date r, u_time r)) (unsynced_join db)"
  have rows: "get_unsynced_attendance db = Inr ?rows"
    using on by (simp add: get_unsynced_attendance_def)
  from assms have nonempty: "?rows \<noteq> []"
    by (auto simp: pending_batches_def rows)
  have ne: "\<forall>b \<in> set (groupby ?rows). snd b \<noteq> []"
    using groupby_nonempty by blast
  show ?thesis
    using sync_groups_online [OF on ne, of deliver clock 0 0 "[]" sent] nonempty
    by (simp add: sync_pending_attendance_def rows run_deliveries_def pending_batches_def
        del: str_nat.simps)
qed

lemma sync_pending_nothing_pending:
  assumes "pending_batches db = []" and "conn_state db \<noteq> ConnectFails"
  shows "sync_pending_attendance deliver clock db sent
           = (Inr (True, ''No pending attendance to sync''), db, sent)"
  using assms
  by (cases "conn_state db")
     (auto simp: sync_pending_attendance_def pending_batches_def get_unsynced_attendance_def
        groupby_Nil_iff)

lemma sync_pending_conn_state:
  "conn_state (fst (snd (sync_pending_attendance deliver clock db sent))) = conn_state db"
  by (simp add: sync_pending_state)

lemma all_delivered_covers:
  assumes rows: "get_unsynced_attendance db = Inr rows"
    and all: "filter (\<lambda>d. \<not> delivered d) (run_deliveries deliver clock db) = []"
    and r: "r \<in> set rows"
  shows "u_id r \<in> set (delivered_ids (run_deliveries deliver clock db))"
proof -
  let ?ds = "run_deliveries deliver clock db"
  from groupby_covers [OF r] obtain b where b: "b \<in> set (groupby rows)" "r \<in> set (snd b)"
    by blast
  have "map d_batch ?ds = groupby rows"
    by (simp add: run_deliveries_batches pending_batches_def rows)
  with b(1) obtain d where d: "d \<in> set ?ds" "d_batch d = b"
    by (metis (no_types, lifting) image_iff set_map)
  from all d(1) have "delivered d" by (auto simp: filter_empty_conv)
  with d b(2) show ?thesis
    by (auto simp: delivered_ids_member batch_ids_def)
qed

text \<open>
  C4. When a run of the reconciler reports that every delivery succeeded, the next run,
  with no attendance marked in between, hands nothing to the transport: it finds no
  pending record and returns at once, whatever transport it is given.
\<close>

theorem reconcile_twice_second_run_sends_nothing:
  assumes "sync_pending_attendance deliver clock db sent = (Inr (True, msg), db1, sent1)"
  shows "sync_pending_attendance deliver' clock' db1 sent1
           = (Inr (True, ''No pending attendance to sync''), db1, sent1)"
proof -
  let ?ds = "run_deliveries deliver clock db"
  from assms have st: "db1 = synced_where (\<lambda>i. i \<in> set (delivered_ids ?ds)) db"
    using sync_pending_state [of deliver clock db sent] by simp
  have nc: "conn_state db \<noteq> ConnectFails"
  proof
    assume "conn_state db = ConnectFails"
    then have "fst (sync_pending_attendance deliver clock db sent) = Inl OperationalError"
      by (simp add: sync_pending_attendance_def get_unsynced_attendance_def)
    with assms show False by simp
  qed
  then have nc1: "conn_state db1 \<noteq> ConnectFails" by (simp add: st)
  have "pending_batches db1 = []"
  proof (cases "pending_batches db = []")
    case True
    from True nc have "sync_pending_attendance deliver clock db sent
           = (Inr (True, ''No pending attendance to sync''), db, sent)"
      by (rule sync_pending_nothing_pending)
    with assms True show ?thesis by simp
  next
    case False
    then have on: "conn_state db = Online" by (rule pending_batches_online)
    then obtain rows where rows: "get_unsynced_attendance db = Inr rows"
      by (simp add: get_unsynced_attendance_def)
    have all: "filter (\<lambda>d. \<not> delivered d) ?ds = []"
    proof (rule ccontr)
      assume "filter (\<lambda>d. \<not> delivered d) ?ds \<noteq> []"
      then have "\<exists>m. fst (sync_pending_attendance deliver clock db sent) = Inr (False, m)"
        by (simp add: sync_pending_result [OF False] del: str_nat.simps)
      with assms show False by simp
    qed
    have "filter (\<lambda>r. \<not> u_id r \<in> set (delivered_ids ?ds)) rows = []"
      using all_delivered_covers [OF rows all] by (simp add: filter_empty_conv)
    with get_unsynced_synced_where [OF on rows, of "\<lambda>i. i \<in> set (delivered_ids ?ds)"]
    show ?thesis by (simp add: pending_batches_def st)
  qed
  then show ?thesis using nc1 by (rule sync_pending_nothing_pending)
qed

theorem reconcile_twice_second_run_sends_nothing_witness:
  "sync_pending_attendance send_message_sync scenario_clock scenario_db []
     = (Inr (True, ''Successfully synced 2 attendance reports''),
        fst (snd (sync_pending_attendance send_message_sync scenario_clock scenario_db [])),
        snd (snd (sync_pending_attendance send_message_sync scenario_clock scenario_db [])))
   \<and> length (snd (snd (sync_pending_attendance send_message_sync scenario_clock scenario_db [])))
       = 2
   \<and> snd (snd (sync_pending_attendance act1_refused scenario_clock
        (fst (snd (sync_pending_attendance send_message_sync scenario_clock scenario_db [])))
        (snd (snd (sync_pending_attendance send_message_sync scenario_clock scenario_db [])))))
     = snd (snd (sync_pending_attendance send_message_sync scenario_clock scenario_db []))"
proof -
  let ?run = "sync_pending_attendance send_message_sync scenario_clock scenario_db []"
  have r: "fst ?run = Inr (True, ''Successfully synced 2 attendance reports'')" by code_simp
  then have h: "?run = (Inr (True, ''Successfully synced 2 attendance reports''),
        fst (snd ?run), snd (snd ?run))"
    by (metis prod.collapse)
  have n: "length (snd (snd ?run)) = 2" by code_simp
  from reconcile_twice_second_run_sends_nothing [OF h, of act1_refused scenario_clock]
  have "snd (snd (sync_pending_attendance act1_refused scenario_clock
        (fst (snd ?run)) (snd (snd ?run)))) = snd (snd ?run)"
    by simp
  with h n show ?thesis by blast
qed

text \<open>
  C5. In a run of the reconciler every pending batch is handed to the transport, whatever
  the transport answered for the others. Every row of a batch the transport confirmed is
  synced after the run; for a batch the transport refused, the run returns failure and its
  message lists the transport's reason for that batch.
\<close>

theorem reconcile_batches_independent:
  "snd (snd (sync_pending_attendance deliver clock db sent))
     = sent @ map d_report (run_deliveries deliver clock db)
   \<and> map d_batch (run_deliveries deliver clock db) = pending_batches db
   \<and> (\<forall>d \<in> set (run_deliveries deliver clock db).
        (delivered d \<longrightarrow>
           (\<forall>a \<in> set (attendance (fst (snd (sync_pending_attendance deliver clock db sent)))).
               a_id a \<in> batch_ids (d_batch d) \<longrightarrow> a_synced a))
      \<and> (\<not> delivered d \<longrightarrow>
           (\<exists>n m errs.
               fst (sync_pending_attendance deliver clock db sent)
                 = Inr (False, ''Synced '' @ str_nat n @ '' reports, '' @ str_nat m
                                 @ '' failed: '' @ join '', '' errs)
               \<and> failure_reason d \<in> set errs)))"
proof -
  let ?ds = "run_deliveries deliver clock db"
  let ?db' = "fst (snd (sync_pending_attendance deliver clock db sent))"
  have db': "?db' = synced_where (\<lambda>i. i \<in> set (delivered_ids ?ds)) db"
    by (simp add: sync_pending_state)
  have sent: "snd (snd (sync_pending_attendance deliver clock db sent))
     = sent @ map d_report ?ds"
    by (simp add: sync_pending_state)
  have ok: "\<forall>a \<in> set (attendance ?db'). a_id a \<in> batch_ids (d_batch d) \<longrightarrow> a_synced a"
    if "d \<in> set ?ds" and "delivered d" for d
    using that unfolding db' by (auto simp: delivered_ids_member)
  have failed: "\<exists>n m errs.
               fst (sync_pending_attendance deliver clock db sent)
                 = Inr (False, ''Synced '' @ str_nat n @ '' reports, '' @ str_nat m
                                 @ '' failed: '' @ join '', '' errs)
               \<and> failure_reason d \<in> set errs"
    if d: "d \<in> set ?ds" and nd: "\<not> delivered d" for d
  proof -
    from d have "map d_batch ?ds \<noteq> []" by auto
    then have pb: "pending_batches db \<noteq> []" by (simp add: run_deliveries_batches)
    from d nd have ne: "filter (\<lambda>d. \<not> delivered d) ?ds \<noteq> []"
      by (auto simp: filter_empty_conv)
    from d nd have "failure_reason d \<in> set (map failure_reason (filter (\<lambda>d. \<not> delivered d) ?ds))"
      by auto
    moreover have "fst (sync_pending_attendance deliver clock db sent)
      = Inr (False, ''Synced '' @ str_nat (length (filter delivered ?ds)) @ '' reports, ''
               @ str_nat (length (filter (\<lambda>d. \<not> delivered d) ?ds)) @ '' failed: ''
               @ join '', '' (map failure_reason (filter (\<lambda>d. \<not> delivered d) ?ds)))"
      using ne by (simp add: sync_pending_result [OF pb] del: str_nat.simps)
    ultimately show ?thesis by blast
  qed
  from sent run_deliveries_batches [of deliver clock db] ok failed show ?thesis by blast
qed

theorem reconcile_batches_independent_witness:
  "length (snd (snd (sync_pending_attendance act1_refused scenario_clock scenario_db []))) = 2
   \<and> \<not> delivered (run_deliveries act1_refused scenario_clock scenario_db ! 0)
   \<and> delivered (run_deliveries act1_refused scenario_clock scenario_db ! 1)
   \<and> a_subject_id
       (attendance (fst (snd (sync_pending_attendance act1_refused scenario_clock scenario_db [])))
          ! 1) = 2
   \<and> a_synced
       (attendance (fst (snd (sync_pending_attendance act1_refused scenario_clock scenario_db [])))
          ! 1)
   \<and> \<not> a_synced
       (attendance (fst (snd (sync_pending_attendance act1_refused scenario_clock scenario_db [])))
          ! 0)
   \<and> fst (sync_pending_attendance act1_refused scenario_clock scenario_db [])
       = Inr (False, ''Synced 1 reports, 1 failed: timeout'')"
proof -
  let ?ds = "run_deliveries act1_refused scenario_clock scenario_db"
  let ?run = "sync_pending_attendance act1_refused scenario_clock scenario_db []"
  let ?a = "attendance (fst (snd ?run)) ! 1"
  note T = reconcile_batches_independent [of act1_refused scenario_clock scenario_db "[]"]
  have len: "length ?ds = 2" by code_simp
  from T have "length (snd (snd ?run)) = length ?ds" by simp
  with len have c1: "length (snd (snd ?run)) = 2" by simp
  have d0: "?ds ! 0 \<in> set ?ds" and d1: "?ds ! 1 \<in> set ?ds" by code_simp+
  have n0: "\<not> delivered (?ds ! 0)" and y1: "delivered (?ds ! 1)" by code_simp+
  have a_in: "?a \<in> set (attendance (fst (snd ?run)))" by code_simp
  have a_id: "a_id ?a \<in> batch_ids (d_batch (?ds ! 1))" by code_simp
  from T d1 y1 a_in a_id have c2: "a_synced ?a" by blast
  have c3: "a_subject_id ?a = 2" by code_simp
  have c4: "\<not> a_synced (attendance (fst (snd ?run)) ! 0)" by code_simp
  have c5: "fst ?run = Inr (False, ''Synced 1 reports, 1 failed: timeout'')" by code_simp
  from c1 n0 y1 c2 c3 c4 c5 show ?thesis by blast
qed

section \<open>Properties of the statistics\<close>

subsection \<open>Binding the parameters\<close>

lemma seg_len_str: "length (if str_param v = [] then [] else [f]) = length (str_param v)"
  by (auto simp: str_param_def split: option.splits)

lemma seg_len_int: "length (if int_param v = [] then [] else [f]) = length (int_param v)"
  by (auto simp: int_param_def split: option.splits)

lemma seg_str:
  "list_all2 (\<lambda>column p. column row = p) (if str_param v = [] then [] else [f]) (str_param v)
     \<longleftrightarrow> (str_param v = [] \<or> (\<exists>x. v = Some x \<and> f row = PStr x))"
  by (auto simp: str_param_def split: option.splits)

lemma seg_int:
  "list_all2 (\<lambda>column p. column row = p) (if int_param v = [] then [] else [f]) (int_param v)
     \<longleftrightarrow> (int_param v = [] \<or> (\<exists>x. v = Some x \<and> f row = PInt x))"
  by (auto simp: int_param_def split: option.splits)

lemma str_param_raw: "p \<in> set (str_param v) \<Longrightarrow> Some p = map_option PStr v"
  by (auto simp: str_param_def split: option.splits if_splits)

lemma int_param_raw: "p \<in> set (int_param v) \<Longrightarrow> Some p = map_option PInt v"
  by (auto simp: int_param_def split: option.splits if_splits)

lemma total_params_no_clash:
  assumes "\<forall>p \<in> set (str_param date_filter @ int_param subject_id).
             Some p \<notin> set [map_option PStr branch, map_option PInt semester,
                             map_option PStr section]"
  shows "filter (\<lambda>p. Some p \<in> set [map_option PStr branch, map_option PInt semester,
                                           map_option PStr section])
           (str_param date_filter @ int_param subject_id @ str_param branch
                        @ int_param semester @ str_param section)
         = str_param branch @ int_param semester @ str_param section"
proof -
  let ?P = "\<lambda>p. Some p \<in> set [map_option PStr branch, map_option PInt semester,
                                           map_option PStr section]"
  have 1: "filter ?P (str_param date_filter) = []" "filter ?P (int_param subject_id) = []"
    using assms by (auto simp: filter_empty_conv)
  have 2: "filter ?P (str_param branch) = str_param branch"
    "filter ?P (int_param semester) = int_param semester"
    "filter ?P (str_param section) = str_param section"
    by (auto simp: filter_id_conv dest: str_param_raw int_param_raw)
  show ?thesis by (simp only: filter_append 1 2 append_Nil)
qed

text \<open>
  When no date or subject parameter equals one of the raw organisational arguments, the
  parameters of the total query are the organisational ones, both queries bind, and the
  three numbers are the counts on the rows.
\<close>

lemma get_attendance_stats_counts:
  assumes on: "conn_state db = Online"
    and nc: "\<forall>p \<in> set (str_param date_filter @ int_param subject_id).
             Some p \<notin> set [map_option PStr branch, map_option PInt semester,
                             map_option PStr section]"
  shows "\<exists>st. get_attendance_stats db date_filter subject_id branch semester section = Inr st
     \<and> st_total st
         = count_distinct (map s_id (filter (org_match branch semester section) (students db)))
     \<and> st_present st
         = count_distinct (map (\<lambda>(a, s). a_student_id a)
             (filter (\<lambda>(a, s). record_match date_filter subject_id a
                               \<and> org_match branch semester section s
                               \<and> a_status a = ''present'')
                (attendance_students db)))
     \<and> st_absent st = st_total st - st_present st"
proof -
  have stud: "list_all2 (\<lambda>column p. column s = p)
          ((if str_param branch = [] then [] else [\<lambda>s. PStr (s_branch s)])
           @ (if int_param semester = [] then [] else [\<lambda>s. PInt (s_semester s)])
           @ (if str_param section = [] then [] else [\<lambda>s. PStr (s_section s)]))
          (str_param branch @ int_param semester @ str_param section)
        \<longleftrightarrow> org_match branch semester section s" for s
    by (simp only: list_all2_append seg_len_str seg_len_int seg_str seg_int org_match_def)
       auto
  have joined: "list_all2 (\<lambda>column p. column (a, s) = p)
          ((if str_param date_filter = [] then [] else [\<lambda>(a, s). PStr (a_date a)])
                 @ (if int_param subject_id = [] then [] else [\<lambda>(a, s). PInt (a_subject_id a)])
                 @ (if str_param branch = [] then [] else [\<lambda>(a, s). PStr (s_branch s)])
                 @ (if int_param semester = [] then [] else [\<lambda>(a, s). PInt (s_semester s)])
                 @ (if str_param section = [] then [] else [\<lambda>(a, s). PStr (s_section s)]))
          (str_param date_filter @ int_param subject_id @ str_param branch
                        @ int_param semester @ str_param section)
        \<longleftrightarrow> record_match date_filter subject_id a \<and> org_match branch semester section s"
    for a s
    by (simp only: list_all2_append seg_len_str seg_len_int seg_str seg_int org_match_def
        record_match_def) auto
  have lens: "length ((if str_param branch = [] then [] else [f1])
           @ (if int_param semester = [] then [] else [f2])
           @ (if str_param section = [] then [] else [f3]))
        = length (str_param branch @ int_param semester @ str_param section)" for f1 f2 f3
    by (simp only: length_append seg_len_str seg_len_int)
  have lenj: "length ((if str_param date_filter = [] then [] else [g1])
                 @ (if int_param subject_id = [] then [] else [g2])
                 @ (if str_param branch = [] then [] else [g3])
                 @ (if int_param semester = [] then [] else [g4])
                 @ (if str_param section = [] then [] else [g5]))
        = length (str_param date_filter @ int_param subject_id @ str_param branch
                        @ int_param semester @ str_param section)" for g1 g2 g3 g4 g5
    by (simp only: length_append seg_len_str seg_len_int)
  show ?thesis
    unfolding get_attendance_stats_def Let_def total_params_no_clash [OF nc] bind_def
    by (simp only: on db_status.case lens lenj if_True option.case stud joined
        case_prod_conv) (simp add: case_prod_unfold joined)
qed

subsection \<open>A clash of parameter values\<close>

text \<open>
  C8 at Scenario E: filtered by the one subject, the store of three students with two
  present gives total 3, present 2, absent 1. With the semester filter added, whose
  value 3 equals the subject id, the subject id is kept among the parameters of the total
  query: two parameters meet one placeholder, the query raises, and the result is the
  all-zero dictionary of the handler, although all three students are in semester 3.
\<close>

theorem get_attendance_stats_parameter_clash:
  "get_attendance_stats stats_db None (Some 3) None None None
     = Inr \<lparr>st_total = 3, st_present = 2, st_absent = 1, st_by_branch = [(''CSE'', 2)],
            st_by_subject = [(''Algebra'', 2)]\<rparr>
   \<and> get_attendance_stats stats_db None (Some 3) None (Some 3) None
     = Inr \<lparr>st_total = 0, st_present = 0, st_absent = 0, st_by_branch = [],
            st_by_subject = []\<rparr>
   \<and> count_distinct (map s_id (filter (\<lambda>s. s_semester s = 3) (students stats_db))) = 3"
  by code_simp

end
